theory Spec2Isabelle
  imports Main "HOL-Library.AList" "HOL-Library.Word"
begin

section \<open>The file system the converter runs on\<close>

text \<open>
  \<^verbatim>\<open>video_converter.py\<close> works on \<^verbatim>\<open>pathlib.Path\<close> objects and plain files. A path is the
  list of its components below the file-system root, a file is its byte content. The file
  system is one ordered association list from paths to nodes: the order of the list is the
  order in which a directory's entries are enumerated (\<^verbatim>\<open>iterdir\<close>, \<^verbatim>\<open>glob\<close>), which the
  operating system leaves open; a new entry goes to the end, an overwritten one keeps its place.

  Access rights are not modelled: every directory can be written and every file read (the
  process owns the tree). Storage can run out: the world says for which paths there is room
  for only so many bytes, and a write beyond that raises after the bytes that fit. The one node that is neither file nor directory is a symbolic link
  whose target does not exist, in a directory that does not exist either (\<open>BrokenLink\<close>):
  \<^verbatim>\<open>stat\<close> and \<^verbatim>\<open>open\<close> on it raise \<^verbatim>\<open>FileNotFoundError\<close>. Renaming follows POSIX
  (\<^verbatim>\<open>os.rename\<close> replaces an existing file).
\<close>

type_synonym byte = "8 word"
type_synonym path = "string list"

datatype node = File "byte list" | Dir | BrokenLink

type_synonym filesystem = "(path \<times> node) list"

datatype exn =
    FileNotFoundError
  | IsADirectoryError
  | NotADirectoryError
  | FileExistsError
  | OSError
  | ValueError
  | CalledProcessError int string

text \<open>What a call does: it returns a value or raises.\<close>

datatype 'a res = Returned 'a | Raised exn

subsection \<open>Pure path operations of pathlib\<close>

definition name :: "path \<Rightarrow> string" where
  "name p = (if p = [] then [] else last p)"

definition parent :: "path \<Rightarrow> path" where
  "parent p = butlast p"

text \<open>\<^verbatim>\<open>str.rfind\<close>: the index of the last occurrence, \<open>None\<close> for Python's \<open>-1\<close>.\<close>

fun rfind :: "'a \<Rightarrow> 'a list \<Rightarrow> nat option" where
  "rfind c [] = None"
| "rfind c (x # xs) =
     (case rfind c xs of
        Some i \<Rightarrow> Some (Suc i)
      | None \<Rightarrow> if x = c then Some 0 else None)"

text \<open>
  \<^verbatim>\<open>PurePath.stem\<close>: \<^verbatim>\<open>i = name.rfind('.')\<close>; \<^verbatim>\<open>name[:i]\<close> if \<^verbatim>\<open>0 < i < len(name) - 1\<close>,
  else the whole name (a leading or a trailing dot starts no suffix).
\<close>

definition stem :: "string \<Rightarrow> string" where
  "stem n =
     (case rfind (CHR ''.'') n of
        Some i \<Rightarrow> if 0 < i \<and> i + 1 < length n then take i n else n
      | None \<Rightarrow> n)"

text \<open>
  \<^verbatim>\<open>PurePath.with_suffix\<close>: the last component's suffix replaced (appended if it has none);
  \<^verbatim>\<open>ValueError\<close> on a path with an empty name.
\<close>

definition with_suffix :: "path \<Rightarrow> string \<Rightarrow> path res" where
  "with_suffix p s =
     (if name p = [] then Raised ValueError
      else Returned (parent p @ [stem (name p) @ s]))"

text \<open>\<^verbatim>\<open>str.endswith\<close>.\<close>

definition endswith :: "string \<Rightarrow> string \<Rightarrow> bool" where
  "endswith s t \<longleftrightarrow> length t \<le> length s \<and> drop (length s - length t) s = t"

text \<open>\<^verbatim>\<open>str(path)\<close> of an absolute path.\<close>

definition str :: "path \<Rightarrow> string" where
  "str p = (if p = [] then ''/'' else concat (map (\<lambda>c. ''/'' @ c) p))"

subsection \<open>File-system operations\<close>

definition lookup :: "filesystem \<Rightarrow> path \<Rightarrow> node option" where
  "lookup fs p = (if p = [] then Some Dir else map_of fs p)"

definition is_dir :: "filesystem \<Rightarrow> path \<Rightarrow> bool" where
  "is_dir fs p \<longleftrightarrow> lookup fs p = Some Dir"

text \<open>\<^verbatim>\<open>Path.exists\<close> follows symbolic links: a broken link does not exist.\<close>

definition exists_path :: "filesystem \<Rightarrow> path \<Rightarrow> bool" where
  "exists_path fs p =
     (case lookup fs p of
        None \<Rightarrow> False
      | Some BrokenLink \<Rightarrow> False
      | Some _ \<Rightarrow> True)"

text \<open>The check every operation that creates or removes an entry makes on the parent.\<close>

definition parent_error :: "filesystem \<Rightarrow> path \<Rightarrow> exn option" where
  "parent_error fs p =
     (case lookup fs (parent p) of
        Some Dir \<Rightarrow> None
      | Some (File _) \<Rightarrow> Some NotADirectoryError
      | Some BrokenLink \<Rightarrow> Some FileNotFoundError
      | None \<Rightarrow> Some FileNotFoundError)"

text \<open>\<^verbatim>\<open>Path.stat().st_size\<close>; the size of a directory entry is the platform's, here 0.\<close>

definition stat :: "filesystem \<Rightarrow> path \<Rightarrow> exn + nat" where
  "stat fs p =
     (case lookup fs p of
        Some (File c) \<Rightarrow> Inr (length c)
      | Some Dir \<Rightarrow> Inr 0
      | Some BrokenLink \<Rightarrow> Inl FileNotFoundError
      | None \<Rightarrow> Inl FileNotFoundError)"

text \<open>\<^verbatim>\<open>open(p, 'rb')\<close>, \<^verbatim>\<open>seek(k)\<close>, \<^verbatim>\<open>read()\<close>: seeking past the end is allowed and reads nothing.\<close>

definition read_from :: "filesystem \<Rightarrow> path \<Rightarrow> nat \<Rightarrow> exn + byte list" where
  "read_from fs p k =
     (case lookup fs p of
        Some (File c) \<Rightarrow> Inr (drop k c)
      | Some Dir \<Rightarrow> Inl IsADirectoryError
      | Some BrokenLink \<Rightarrow> Inl FileNotFoundError
      | None \<Rightarrow> Inl FileNotFoundError)"

text \<open>
  \<^verbatim>\<open>open(p, 'wb')\<close>: creates the file, or truncates the one that is there, before anything is
  written.
\<close>

definition open_wb :: "filesystem \<Rightarrow> path \<Rightarrow> exn + filesystem" where
  "open_wb fs p =
     (if p = [] then Inl IsADirectoryError
      else case parent_error fs p of
        Some e \<Rightarrow> Inl e
      | None \<Rightarrow>
          (case lookup fs p of
             Some Dir \<Rightarrow> Inl IsADirectoryError
           | Some BrokenLink \<Rightarrow> Inl FileNotFoundError
           | _ \<Rightarrow> Inr (AList.update p (File []) fs)))"

text \<open>
  \<^verbatim>\<open>write(content)\<close> on the file just opened. Where the path has room for fewer bytes than
  the content (disk full, quota), the bytes that fit stay in the file and \<^verbatim>\<open>OSError\<close> is
  raised. A path without an entry has room for everything.
\<close>

definition has_room :: "(path \<times> nat) list \<Rightarrow> path \<Rightarrow> nat \<Rightarrow> bool" where
  "has_room rm p n = (case map_of rm p of None \<Rightarrow> True | Some k \<Rightarrow> n \<le> k)"

definition write_bytes ::
  "(path \<times> nat) list \<Rightarrow> filesystem \<Rightarrow> path \<Rightarrow> byte list \<Rightarrow> exn option \<times> filesystem"
where
  "write_bytes rm fs p c =
     (case map_of rm p of
        None \<Rightarrow> (None, AList.update p (File c) fs)
      | Some k \<Rightarrow>
          if length c \<le> k then (None, AList.update p (File c) fs)
          else (Some OSError, AList.update p (File (take k c)) fs))"

text \<open>\<^verbatim>\<open>Path.unlink\<close>: removes a file or a link, never a directory.\<close>

definition unlink :: "filesystem \<Rightarrow> path \<Rightarrow> exn + filesystem" where
  "unlink fs p =
     (case lookup fs p of
        None \<Rightarrow> Inl FileNotFoundError
      | Some Dir \<Rightarrow> Inl IsADirectoryError
      | Some _ \<Rightarrow> Inr (AList.delete p fs))"

text \<open>The entries of a directory, in enumeration order.\<close>

definition children :: "filesystem \<Rightarrow> path \<Rightarrow> path list" where
  "children fs d = filter (\<lambda>p. p \<noteq> [] \<and> parent p = d) (map fst fs)"

text \<open>
  \<^verbatim>\<open>Path.rename\<close> (POSIX): the target is replaced unless it is a directory receiving a
  non-directory, a non-directory receiving a directory, or a directory that is not empty. A
  directory moves with everything below it.
\<close>

definition move_below :: "path \<Rightarrow> path \<Rightarrow> path \<Rightarrow> path" where
  "move_below src dst p =
     (if take (length src) p = src then dst @ drop (length src) p else p)"

definition replant :: "path \<Rightarrow> path \<Rightarrow> filesystem \<Rightarrow> filesystem" where
  "replant src dst fs = map (\<lambda>(p, m). (move_below src dst p, m)) fs"

definition rename_dir :: "filesystem \<Rightarrow> path \<Rightarrow> path \<Rightarrow> exn + filesystem" where
  "rename_dir fs src dst =
     (if take (length src) dst = src then Inl OSError
      else
        (case lookup fs dst of
           None \<Rightarrow> Inr (replant src dst fs)
         | Some Dir \<Rightarrow>
             (if children fs dst = [] then Inr (replant src dst (AList.delete dst fs))
              else Inl OSError)
         | Some _ \<Rightarrow> Inl NotADirectoryError))"

definition rename :: "filesystem \<Rightarrow> path \<Rightarrow> path \<Rightarrow> exn + filesystem" where
  "rename fs src dst =
     (if src = [] \<or> dst = [] then Inl OSError
      else
        (case lookup fs src of
           None \<Rightarrow> Inl FileNotFoundError
         | Some n \<Rightarrow>
             (case parent_error fs dst of
                Some e \<Rightarrow> Inl e
              | None \<Rightarrow>
                  (if src = dst then Inr fs
                   else if n = Dir then rename_dir fs src dst
                   else
                     (case lookup fs dst of
                        Some Dir \<Rightarrow> Inl IsADirectoryError
                      | _ \<Rightarrow> Inr (AList.update dst n (AList.delete src fs)))))))"

text \<open>
  \<^verbatim>\<open>os.mkdir\<close>, and \<^verbatim>\<open>Path.mkdir(exist_ok=True)\<close> around it: \<^verbatim>\<open>FileNotFoundError\<close> is
  raised again (\<^verbatim>\<open>parents\<close> is false), any other \<^verbatim>\<open>OSError\<close> is ignored when the path is a
  directory.
\<close>

definition os_mkdir :: "filesystem \<Rightarrow> path \<Rightarrow> exn + filesystem" where
  "os_mkdir fs p =
     (if p = [] then Inl FileExistsError
      else case parent_error fs p of
        Some e \<Rightarrow> Inl e
      | None \<Rightarrow>
          (case lookup fs p of
             None \<Rightarrow> Inr (fs @ [(p, Dir)])
           | Some _ \<Rightarrow> Inl FileExistsError))"

definition mkdir :: "filesystem \<Rightarrow> path \<Rightarrow> exn + filesystem" where
  "mkdir fs p =
     (case os_mkdir fs p of
        Inr fs' \<Rightarrow> Inr fs'
      | Inl e \<Rightarrow>
          if e = FileNotFoundError then Inl e
          else if is_dir fs p then Inr fs
          else Inl e)"

text \<open>\<^verbatim>\<open>Path.iterdir\<close>: the listing is taken once, when the loop starts.\<close>

definition iterdir :: "filesystem \<Rightarrow> path \<Rightarrow> exn + path list" where
  "iterdir fs d =
     (case lookup fs d of
        Some Dir \<Rightarrow> Inr (children fs d)
      | Some (File _) \<Rightarrow> Inl NotADirectoryError
      | Some BrokenLink \<Rightarrow> Inl FileNotFoundError
      | None \<Rightarrow> Inl FileNotFoundError)"

text \<open>
  \<^verbatim>\<open>folder.glob("*.m4s")\<close>: the entries of the folder whose name ends with \<^verbatim>\<open>.m4s\<close>, of any
  kind (pathlib's \<^verbatim>\<open>*\<close> matches a leading dot too, and case counts as on POSIX); nothing when
  the folder is no directory.
\<close>

definition glob_m4s :: "filesystem \<Rightarrow> path \<Rightarrow> path list" where
  "glob_m4s fs d =
     (if is_dir fs d then filter (\<lambda>p. endswith (name p) ''.m4s'') (children fs d) else [])"

section \<open>The logger and the world\<close>

text \<open>
  Each \<^verbatim>\<open>logger\<close> call of the source is one event; the message text is reduced to its kind
  and the names it mentions. The log only grows.
\<close>

datatype level = INFO | WARNING | ERROR

datatype event =
    HeaderProcessed string
  | StripFailed path exn
  | WrongCount string nat
  | VideoFound string nat
  | AudioFound string nat
  | UnknownType string
  | NoPair string
  | NamingHint
  | MergeOk string
  | MergeFailed int
  | MergeStderr string
  | FfmpegNotFound
  | ProcessingFolder string
  | RenameFailed exn
  | CleanupFailed exn
  | InputDirMissing path
  | Converted string
  | ConvertFailed string
  | Summary nat nat
  | OutputDir path

record world =
  files :: filesystem
  log :: "(level \<times> event) list"
  room :: "(path \<times> nat) list"

definition logger :: "level \<Rightarrow> event \<Rightarrow> world \<Rightarrow> world" where
  "logger l e w = w\<lparr>log := log w @ [(l, e)]\<rparr>"

section \<open>VideoConverter\<close>

record converter =
  input_dir :: path
  output_dir :: path

text \<open>\<^verbatim>\<open>__init__\<close>: the output directory is made at once.\<close>

definition init :: "path \<Rightarrow> world \<Rightarrow> converter res \<times> world" where
  "init inp w =
     (let self = \<lparr>input_dir = inp, output_dir = inp @ [''converted_videos'']\<rparr> in
      case mkdir (files w) (output_dir self) of
        Inl e \<Rightarrow> (Raised e, w)
      | Inr fs' \<Rightarrow> (Returned self, w\<lparr>files := fs'\<rparr>))"

text \<open>
  \<^verbatim>\<open>remove_encryption_header\<close>: \<^verbatim>\<open>with_suffix\<close> stands before the \<^verbatim>\<open>try\<close>; everything
  after it is caught by \<^verbatim>\<open>except Exception\<close> and answered with \<^verbatim>\<open>None\<close>. Nothing in the
  \<^verbatim>\<open>except\<close> branch removes the \<^verbatim>\<open>.temp\<close> file that \<^verbatim>\<open>open\<close> made when \<^verbatim>\<open>write\<close> raises.
\<close>

definition remove_encryption_header :: "path \<Rightarrow> world \<Rightarrow> path option res \<times> world" where
  "remove_encryption_header file_path w =
     (case with_suffix file_path ''.temp'' of
        Raised e \<Rightarrow> (Raised e, w)
      | Returned temp_file \<Rightarrow>
          (case read_from (files w) file_path 9 of
             Inl e \<Rightarrow> (Returned None, logger ERROR (StripFailed file_path e) w)
           | Inr content \<Rightarrow>
               (case open_wb (files w) temp_file of
                  Inl e \<Rightarrow> (Returned None, logger ERROR (StripFailed file_path e) w)
                | Inr fs1 \<Rightarrow>
                    (case write_bytes (room w) fs1 temp_file content of
                       (Some e, fs2) \<Rightarrow>
                         (Returned None,
                          logger ERROR (StripFailed file_path e) (w\<lparr>files := fs2\<rparr>))
                     | (None, fs2) \<Rightarrow>
                         (Returned (Some temp_file),
                          logger INFO (HeaderProcessed (name file_path)) (w\<lparr>files := fs2\<rparr>))))))"

text \<open>
  The loop of \<^verbatim>\<open>find_m4s_files\<close> over the globbed files: the later file of a role replaces
  the earlier one. \<^verbatim>\<open>file.stat()\<close> is evaluated for the log message and is not guarded.
\<close>

fun find_m4s_loop ::
  "path list \<Rightarrow> path option \<times> path option \<Rightarrow> world \<Rightarrow> (path option \<times> path option) res \<times> world"
where
  "find_m4s_loop [] va w = (Returned va, w)"
| "find_m4s_loop (file # rest) (video_file, audio_file) w =
     (let file_stem = stem (name file) in
      if endswith file_stem ''080'' then
        (case stat (files w) file of
           Inl e \<Rightarrow> (Raised e, w)
         | Inr sz \<Rightarrow>
             find_m4s_loop rest (Some file, audio_file) (logger INFO (VideoFound (name file) sz) w))
      else if endswith file_stem ''280'' then
        (case stat (files w) file of
           Inl e \<Rightarrow> (Raised e, w)
         | Inr sz \<Rightarrow>
             find_m4s_loop rest (video_file, Some file) (logger INFO (AudioFound (name file) sz) w))
      else find_m4s_loop rest (video_file, audio_file) (logger WARNING (UnknownType (name file)) w))"

definition find_m4s_files :: "path \<Rightarrow> world \<Rightarrow> (path option \<times> path option) res \<times> world" where
  "find_m4s_files folder_path w =
     (let m4s_files = glob_m4s (files w) folder_path in
      if length m4s_files \<noteq> 2 then
        (Returned (None, None),
         logger WARNING (WrongCount (name folder_path) (length m4s_files)) w)
      else
        (case find_m4s_loop m4s_files (None, None) w of
           (Raised e, w') \<Rightarrow> (Raised e, w')
         | (Returned (video_file, audio_file), w') \<Rightarrow>
             if video_file = None \<or> audio_file = None then
               (Returned (None, None),
                logger ERROR NamingHint (logger ERROR (NoPair (name folder_path)) w'))
             else (Returned (video_file, audio_file), w')))"

section \<open>The external muxer\<close>

text \<open>
  \<^verbatim>\<open>ffmpeg\<close> is not part of the repository: \<^verbatim>\<open>subprocess.run\<close> is a parameter that takes the
  command line and the file system and answers with the finished process (return code and
  captured standard error) or with the error of the spawn, and with the file system it leaves.
  \<^verbatim>\<open>check=True\<close> turns a return code other than 0 into \<^verbatim>\<open>CalledProcessError\<close>.
\<close>

datatype proc = Completed int string | SpawnError exn

type_synonym runner = "string list \<Rightarrow> filesystem \<Rightarrow> proc \<times> filesystem"

definition subprocess_run :: "runner \<Rightarrow> string list \<Rightarrow> filesystem \<Rightarrow> (exn + unit) \<times> filesystem" where
  "subprocess_run run cmd fs =
     (case run cmd fs of
        (SpawnError e, fs') \<Rightarrow> (Inl e, fs')
      | (Completed rc err, fs') \<Rightarrow>
          if rc \<noteq> 0 then (Inl (CalledProcessError rc err), fs') else (Inr (), fs'))"

text \<open>
  \<^verbatim>\<open>merge_video_audio\<close> catches \<^verbatim>\<open>CalledProcessError\<close> and \<^verbatim>\<open>FileNotFoundError\<close>, nothing
  else.
\<close>

definition merge_video_audio ::
  "runner \<Rightarrow> path \<Rightarrow> path \<Rightarrow> path \<Rightarrow> world \<Rightarrow> bool res \<times> world"
where
  "merge_video_audio run video_file audio_file output_file w =
     (let cmd = [''ffmpeg'', ''-i'', str video_file, ''-i'', str audio_file,
                 ''-c'', ''copy'', ''-y'', str output_file] in
      case subprocess_run run cmd (files w) of
        (Inr u, fs') \<Rightarrow> (Returned True, logger INFO (MergeOk (name output_file)) (w\<lparr>files := fs'\<rparr>))
      | (Inl e, fs') \<Rightarrow>
          (case e of
             CalledProcessError rc err \<Rightarrow>
               (Returned False,
                logger ERROR (MergeStderr err) (logger ERROR (MergeFailed rc) (w\<lparr>files := fs'\<rparr>)))
           | FileNotFoundError \<Rightarrow> (Returned False, logger ERROR FfmpegNotFound (w\<lparr>files := fs'\<rparr>))
           | _ \<Rightarrow> (Raised e, w\<lparr>files := fs'\<rparr>)))"

section \<open>One folder\<close>

text \<open>
  Lines 159 to 181 of \<^verbatim>\<open>convert_single_folder\<close>: both temporary files are renamed to
  \<^verbatim>\<open>.mp4\<close> inside one \<^verbatim>\<open>try\<close> (a failure is logged and answered with \<^verbatim>\<open>False\<close>, nothing is
  undone), the muxer runs, and both promoted files are unlinked inside another \<^verbatim>\<open>try\<close>
  (a failure is a warning).
\<close>

definition promote_and_merge ::
  "runner \<Rightarrow> converter \<Rightarrow> path \<Rightarrow> path \<Rightarrow> path \<Rightarrow> world \<Rightarrow> bool res \<times> world"
where
  "promote_and_merge run self folder_path video_temp audio_temp w =
     (case with_suffix video_temp ''.mp4'' of
        Raised e \<Rightarrow> (Raised e, w)
      | Returned video_mp4 \<Rightarrow>
     (case with_suffix audio_temp ''.mp4'' of
        Raised e \<Rightarrow> (Raised e, w)
      | Returned audio_mp4 \<Rightarrow>
     (case rename (files w) video_temp video_mp4 of
        Inl e \<Rightarrow> (Returned False, logger ERROR (RenameFailed e) w)
      | Inr fs1 \<Rightarrow>
     (case rename fs1 audio_temp audio_mp4 of
        Inl e \<Rightarrow> (Returned False, logger ERROR (RenameFailed e) (w\<lparr>files := fs1\<rparr>))
      | Inr fs2 \<Rightarrow>
     (let output_file = output_dir self @ [name folder_path @ ''.mp4''] in
      case merge_video_audio run video_mp4 audio_mp4 output_file (w\<lparr>files := fs2\<rparr>) of
        (Raised e, w3) \<Rightarrow> (Raised e, w3)
      | (Returned success, w3) \<Rightarrow>
          (case unlink (files w3) video_mp4 of
             Inl e \<Rightarrow> (Returned success, logger WARNING (CleanupFailed e) w3)
           | Inr fs4 \<Rightarrow>
               (case unlink fs4 audio_mp4 of
                  Inl e \<Rightarrow> (Returned success, logger WARNING (CleanupFailed e) (w3\<lparr>files := fs4\<rparr>))
                | Inr fs5 \<Rightarrow> (Returned success, w3\<lparr>files := fs5\<rparr>))))))))"

text \<open>
  \<^verbatim>\<open>convert_single_folder\<close>, lines 141 to 157, then the part above. A \<^verbatim>\<open>Path\<close> is always
  true, so \<^verbatim>\<open>not video_m4s\<close> asks for \<^verbatim>\<open>None\<close>. The \<^verbatim>\<open>unlink\<close> of line 156 stands in no
  \<^verbatim>\<open>try\<close>.
\<close>

definition convert_single_folder :: "runner \<Rightarrow> converter \<Rightarrow> path \<Rightarrow> world \<Rightarrow> bool res \<times> world" where
  "convert_single_folder run self folder_path w0 =
     (case find_m4s_files folder_path (logger INFO (ProcessingFolder (name folder_path)) w0) of
        (Raised e, w1) \<Rightarrow> (Raised e, w1)
      | (Returned (None, audio_m4s), w1) \<Rightarrow> (Returned False, w1)
      | (Returned (Some video_m4s, None), w1) \<Rightarrow> (Returned False, w1)
      | (Returned (Some video_m4s, Some audio_m4s), w1) \<Rightarrow>
     (case remove_encryption_header video_m4s w1 of
        (Raised e, w2) \<Rightarrow> (Raised e, w2)
      | (Returned None, w2) \<Rightarrow> (Returned False, w2)
      | (Returned (Some video_temp), w2) \<Rightarrow>
     (case remove_encryption_header audio_m4s w2 of
        (Raised e, w3) \<Rightarrow> (Raised e, w3)
      | (Returned None, w3) \<Rightarrow>
          (case unlink (files w3) video_temp of
             Inl e \<Rightarrow> (Raised e, w3)
           | Inr fs' \<Rightarrow> (Returned False, w3\<lparr>files := fs'\<rparr>))
      | (Returned (Some audio_temp), w3) \<Rightarrow>
          promote_and_merge run self folder_path video_temp audio_temp w3)))"

section \<open>The batch\<close>

text \<open>
  The loop of \<^verbatim>\<open>convert_all\<close> over the listing, with its two counters. \<^verbatim>\<open>is_dir\<close> is asked
  when the entry's turn comes. Nothing in the loop catches an exception.
\<close>

fun convert_loop ::
  "runner \<Rightarrow> converter \<Rightarrow> path list \<Rightarrow> nat \<times> nat \<Rightarrow> world \<Rightarrow> (nat \<times> nat) res \<times> world"
where
  "convert_loop run self [] counts w = (Returned counts, w)"
| "convert_loop run self (folder_path # rest) (success_count, total_folders) w =
     (if is_dir (files w) folder_path \<and> name folder_path \<noteq> ''converted_videos'' then
        (case convert_single_folder run self folder_path w of
           (Raised e, w') \<Rightarrow> (Raised e, w')
         | (Returned ok, w') \<Rightarrow>
             if ok then
               convert_loop run self rest (success_count + 1, total_folders + 1)
                 (logger INFO (Converted (name folder_path)) w')
             else
               convert_loop run self rest (success_count, total_folders + 1)
                 (logger ERROR (ConvertFailed (name folder_path)) w'))
      else convert_loop run self rest (success_count, total_folders) w)"

text \<open>
  What a Python function hands back has no fixed type; \<^verbatim>\<open>convert_all\<close> is the function
  whose result the caller reads, so its result is a Python value.
\<close>

datatype pyval = PyInt int | PyTuple "pyval list"

definition convert_all :: "runner \<Rightarrow> converter \<Rightarrow> world \<Rightarrow> pyval res \<times> world" where
  "convert_all run self w =
     (if \<not> exists_path (files w) (input_dir self) then
        (Returned (PyInt 0), logger ERROR (InputDirMissing (input_dir self)) w)
      else
        (case iterdir (files w) (input_dir self) of
           Inl e \<Rightarrow> (Raised e, w)
         | Inr entries \<Rightarrow>
             (case convert_loop run self entries (0, 0) w of
                (Raised e, w') \<Rightarrow> (Raised e, w')
              | (Returned (success_count, total_folders), w') \<Rightarrow>
                  (Returned (PyInt (int success_count)),
                   logger INFO (OutputDir (output_dir self))
                     (logger INFO (Summary success_count total_folders) w')))))"

section \<open>Reading the log\<close>

text \<open>
  \<^verbatim>\<open>convert_single_folder\<close> opens with the message that names the folder it works on, and
  \<^verbatim>\<open>convert_all\<close> reports each success; the folders processed and the folders converted are
  read off the log.
\<close>

fun started :: "level \<times> event \<Rightarrow> string list" where
  "started (l, ProcessingFolder n) = [n]"
| "started _ = []"

fun succeeded :: "level \<times> event \<Rightarrow> string list" where
  "succeeded (l, Converted n) = [n]"
| "succeeded _ = []"

definition processed :: "world \<Rightarrow> string list" where
  "processed w = concat (map started (log w))"

definition converted :: "world \<Rightarrow> string list" where
  "converted w = concat (map succeeded (log w))"

section \<open>Example file trees\<close>

text \<open>A muxer that exits with 0 and writes nothing.\<close>

definition ffmpeg_ok :: runner where
  "ffmpeg_ok cmd fs = (Completed 0 [], fs)"

definition fresh :: "filesystem \<Rightarrow> world" where
  "fresh fs = \<lparr>files = fs, log = [], room = []\<rparr>"

definition tool :: converter where
  "tool = \<lparr>input_dir = [''v''], output_dir = [''v'', ''converted_videos'']\<rparr>"

text \<open>Folder \<^verbatim>\<open>/v/A\<close> with the audio fragment enumerated first.\<close>

definition fs_pair :: filesystem where
  "fs_pair =
     [([''v''], Dir), ([''v'', ''A''], Dir),
      ([''v'', ''A'', ''y280.m4s''], File [0, 1, 2, 3, 4, 5, 6, 7, 8, 9]),
      ([''v'', ''A'', ''x080.m4s''], File [0, 1, 2, 3, 4, 5, 6, 7, 8, 9, 10, 11])]"

text \<open>Two video fragments and no audio fragment.\<close>

definition fs_twice :: filesystem where
  "fs_twice =
     [([''v''], Dir), ([''v'', ''A''], Dir),
      ([''v'', ''A'', ''x080.m4s''], File [0, 1, 2, 3, 4, 5, 6, 7, 8, 9]),
      ([''v'', ''A'', ''z080.m4s''], File [0, 1, 2, 3, 4, 5, 6, 7, 8, 9, 10])]"

text \<open>A video fragment of three bytes.\<close>

definition fs_short :: filesystem where
  "fs_short =
     [([''v''], Dir), ([''v'', ''A''], Dir),
      ([''v'', ''A'', ''x080.m4s''], File [7, 7, 7])]"

text \<open>The audio fragment is a directory: reading it fails.\<close>

definition fs_audio_dir :: filesystem where
  "fs_audio_dir =
     [([''v''], Dir), ([''v'', ''A''], Dir),
      ([''v'', ''A'', ''x080.m4s''], File [0, 1, 2, 3, 4, 5, 6, 7, 8, 9, 10, 11]),
      ([''v'', ''A'', ''y280.m4s''], Dir)]"

text \<open>A directory stands where the promoted audio file has to go.\<close>

definition fs_blocked :: filesystem where
  "fs_blocked =
     [([''v''], Dir), ([''v'', ''A''], Dir),
      ([''v'', ''A'', ''x080.m4s''], File [0, 1, 2, 3, 4, 5, 6, 7, 8, 9, 10, 11]),
      ([''v'', ''A'', ''y280.m4s''], File [0, 1, 2, 3, 4, 5, 6, 7, 8, 9]),
      ([''v'', ''A'', ''y280.mp4''], Dir)]"

text \<open>
  Folder \<^verbatim>\<open>A\<close> holds a dangling symbolic link named like a video fragment; folder \<^verbatim>\<open>B\<close>
  is a good pair.
\<close>

definition fs_link :: filesystem where
  "fs_link =
     [([''v''], Dir), ([''v'', ''A''], Dir),
      ([''v'', ''A'', ''a080.m4s''], BrokenLink),
      ([''v'', ''A'', ''b280.m4s''], File [0, 1, 2, 3, 4, 5, 6, 7, 8, 9]),
      ([''v'', ''B''], Dir),
      ([''v'', ''B'', ''x080.m4s''], File [0, 1, 2, 3, 4, 5, 6, 7, 8, 9, 10, 11]),
      ([''v'', ''B'', ''y280.m4s''], File [0, 1, 2, 3, 4, 5, 6, 7, 8, 9])]"

text \<open>
  The output folder of an earlier run, holding a pair of fragments of its own, then a good
  folder and a folder with one fragment.
\<close>

definition fs_batch :: filesystem where
  "fs_batch =
     [([''v''], Dir),
      ([''v'', ''converted_videos''], Dir),
      ([''v'', ''converted_videos'', ''x080.m4s''], File [0, 1, 2, 3, 4, 5, 6, 7, 8, 9, 10, 11]),
      ([''v'', ''converted_videos'', ''y280.m4s''], File [0, 1, 2, 3, 4, 5, 6, 7, 8, 9]),
      ([''v'', ''A''], Dir),
      ([''v'', ''A'', ''x080.m4s''], File [0, 1, 2, 3, 4, 5, 6, 7, 8, 9, 10, 11]),
      ([''v'', ''A'', ''y280.m4s''], File [0, 1, 2, 3, 4, 5, 6, 7, 8, 9]),
      ([''v'', ''B''], Dir),
      ([''v'', ''B'', ''x080.m4s''], File [0, 1, 2, 3, 4, 5, 6, 7, 8, 9, 10, 11])]"

text \<open>The good pair, with room for two bytes at the video fragment's \<^verbatim>\<open>.temp\<close> path.\<close>

definition cramped :: world where
  "cramped = \<lparr>files = fs_pair, log = [], room = [([''v'', ''A'', ''x080.temp''], 2)]\<rparr>"

section \<open>Pairing and header stripping\<close>

lemma files_logger [simp]: "files (logger l e w) = files w"
  by (simp add: logger_def)

lemma log_logger [simp]: "log (logger l e w) = log w @ [(l, e)]"
  by (simp add: logger_def)

lemma room_logger [simp]: "room (logger l e w) = room w"
  by (simp add: logger_def)

lemma lookup_update:
  "p \<noteq> [] \<Longrightarrow> lookup (AList.update p n fs) q = (if q = p then Some n else lookup fs q)"
  by (simp add: lookup_def update_conv')

lemma lookup_delete:
  "p \<noteq> [] \<Longrightarrow> lookup (AList.delete p fs) q = (if q = p then None else lookup fs q)"
  by (simp add: lookup_def delete_conv')

lemma endswith_280_not_080: "endswith s ''280'' \<Longrightarrow> \<not> endswith s ''080''"
  by (auto simp: endswith_def)

lemma stat_exists: "exists_path fs p \<Longrightarrow> \<exists>n. stat fs p = Inr n"
  by (auto simp: exists_path_def stat_def split: option.splits node.splits)

lemma find_m4s_loop_files: "find_m4s_loop g va w = (r, w') \<Longrightarrow> files w' = files w"
proof (induction g va w rule: find_m4s_loop.induct)
  case (1 va w)
  then show ?case by simp
next
  case (2 f rest vf af w)
  then show ?case
    by (auto simp: Let_def split: if_splits sum.splits)
qed

lemma find_m4s_files_files: "find_m4s_files folder w = (r, w') \<Longrightarrow> files w' = files w"
  by (auto simp: find_m4s_files_def Let_def split: if_splits prod.splits res.splits
      dest: find_m4s_loop_files)

text \<open>
  Claim C1. A folder whose \<^verbatim>\<open>*.m4s\<close> entries are exactly two existing files, one with a stem
  ending in \<^verbatim>\<open>080\<close> and one with a stem ending in \<^verbatim>\<open>280\<close>, is paired: \<^verbatim>\<open>find_m4s_files\<close>
  returns the 080 file as video and the 280 file as audio, in whichever of the two orders the
  folder is enumerated.
\<close>

theorem find_m4s_files_pairs:
  assumes glob: "glob_m4s (files w) folder = [v, a] \<or> glob_m4s (files w) folder = [a, v]"
    and v: "endswith (stem (name v)) ''080''"
    and a: "endswith (stem (name a)) ''280''"
    and ev: "exists_path (files w) v"
    and ea: "exists_path (files w) a"
  shows "fst (find_m4s_files folder w) = Returned (Some v, Some a)"
proof -
  obtain nv where nv: "stat (files w) v = Inr nv" using stat_exists [OF ev] by blast
  obtain na where na: "stat (files w) a = Inr na" using stat_exists [OF ea] by blast
  have na80: "\<not> endswith (stem (name a)) ''080''" using a by (rule endswith_280_not_080)
  from glob show ?thesis
  proof
    assume "glob_m4s (files w) folder = [v, a]"
    then show ?thesis using v a na80 nv na by (simp add: find_m4s_files_def Let_def)
  next
    assume "glob_m4s (files w) folder = [a, v]"
    then show ?thesis using v a na80 nv na by (simp add: find_m4s_files_def Let_def)
  qed
qed

theorem find_m4s_files_pairs_witness:
  "fst (find_m4s_files [''v'', ''A''] (fresh fs_pair)) =
     Returned (Some [''v'', ''A'', ''x080.m4s''], Some [''v'', ''A'', ''y280.m4s''])"
  by (rule find_m4s_files_pairs; code_simp)

lemma find_m4s_loop_returns:
  "\<forall>f\<in>set g. exists_path (files w) f \<Longrightarrow> \<exists>r w'. find_m4s_loop g va w = (Returned r, w')"
proof (induction g va w rule: find_m4s_loop.induct)
  case (1 va w)
  then show ?case by simp
next
  case (2 f rest vf af w)
  from "2.prems" obtain n where n: "stat (files w) f = Inr n"
    using stat_exists by force
  from "2.prems" have rest: "\<forall>f\<in>set rest. exists_path (files w) f" by simp
  show ?case
    using n rest "2.IH" by (simp add: Let_def)
qed

lemma find_m4s_loop_roles:
  "find_m4s_loop g (v0, a0) w = (Returned (v, a), w') \<Longrightarrow>
     (v = v0 \<or> (\<exists>f\<in>set g. v = Some f \<and> endswith (stem (name f)) ''080'')) \<and>
     (a = a0 \<or> (\<exists>f\<in>set g. a = Some f \<and> endswith (stem (name f)) ''280''))"
proof (induction g arbitrary: v0 a0 w)
  case Nil
  then show ?case by simp
next
  case (Cons f rest)
  show ?case
  proof (cases "endswith (stem (name f)) ''080''")
    case True
    with Cons.prems obtain n where
      "find_m4s_loop rest (Some f, a0) (logger INFO (VideoFound (name f) n) w) = (Returned (v, a), w')"
      by (auto simp: Let_def split: sum.splits)
    from Cons.IH [OF this] True show ?thesis by auto
  next
    case no80: False
    show ?thesis
    proof (cases "endswith (stem (name f)) ''280''")
      case True
      with no80 Cons.prems obtain n where
        "find_m4s_loop rest (v0, Some f) (logger INFO (AudioFound (name f) n) w) = (Returned (v, a), w')"
        by (auto simp: Let_def split: sum.splits)
      from Cons.IH [OF this] True show ?thesis by auto
    next
      case False
      with no80 Cons.prems have
        "find_m4s_loop rest (v0, a0) (logger WARNING (UnknownType (name f)) w) = (Returned (v, a), w')"
        by (simp add: Let_def)
      from Cons.IH [OF this] show ?thesis by auto
    qed
  qed
qed

text \<open>
  Claim C2. When the number of \<^verbatim>\<open>*.m4s\<close> entries is not 2, or no entry has a stem ending in
  \<^verbatim>\<open>080\<close>, or none has a stem ending in \<^verbatim>\<open>280\<close> (with two entries: a role is duplicated or
  missing), \<^verbatim>\<open>find_m4s_files\<close> never returns a video and audio pair; when the entries exist
  (no \<^verbatim>\<open>stat\<close> fails) it returns \<^verbatim>\<open>(None, None)\<close>. Two files of one role are a failure.
\<close>

theorem find_m4s_files_fails:
  assumes "length (glob_m4s (files w) folder) \<noteq> 2
      \<or> (\<forall>f\<in>set (glob_m4s (files w) folder). \<not> endswith (stem (name f)) ''080'')
      \<or> (\<forall>f\<in>set (glob_m4s (files w) folder). \<not> endswith (stem (name f)) ''280'')"
  shows "(\<forall>v a. fst (find_m4s_files folder w) \<noteq> Returned (Some v, Some a))
     \<and> ((\<forall>f\<in>set (glob_m4s (files w) folder). exists_path (files w) f) \<longrightarrow>
          fst (find_m4s_files folder w) = Returned (None, None))"
proof (cases "length (glob_m4s (files w) folder) \<noteq> 2")
  case True
  then show ?thesis by (simp add: find_m4s_files_def Let_def)
next
  case two: False
  with assms have missing:
    "(\<forall>f\<in>set (glob_m4s (files w) folder). \<not> endswith (stem (name f)) ''080'')
      \<or> (\<forall>f\<in>set (glob_m4s (files w) folder). \<not> endswith (stem (name f)) ''280'')"
    by blast
  obtain r w' where loop: "find_m4s_loop (glob_m4s (files w) folder) (None, None) w = (r, w')"
    by (cases "find_m4s_loop (glob_m4s (files w) folder) (None, None) w") blast
  have none: "v = None \<or> a = None" if "r = Returned (v, a)" for v a
    using find_m4s_loop_roles [of "glob_m4s (files w) folder" None None w v a w'] loop that missing
    by auto
  have first: "\<forall>v a. fst (find_m4s_files folder w) \<noteq> Returned (Some v, Some a)"
    using two loop none
    by (cases r) (auto simp: find_m4s_files_def Let_def split: prod.splits)
  have second: "fst (find_m4s_files folder w) = Returned (None, None)"
    if ex: "\<forall>f\<in>set (glob_m4s (files w) folder). exists_path (files w) f"
  proof -
    from find_m4s_loop_returns [OF ex, of "(None, None)"] loop
    obtain va where "r = Returned va" by auto
    then show ?thesis using two loop none
      by (cases va) (auto simp: find_m4s_files_def Let_def)
  qed
  from first second show ?thesis by blast
qed

theorem find_m4s_files_fails_witness:
  "fst (find_m4s_files [''v'', ''A''] (fresh fs_twice)) = Returned (None, None)"
proof -
  have two_videos:
    "length (glob_m4s (files (fresh fs_twice)) [''v'', ''A'']) \<noteq> 2
      \<or> (\<forall>f\<in>set (glob_m4s (files (fresh fs_twice)) [''v'', ''A'']). \<not> endswith (stem (name f)) ''080'')
      \<or> (\<forall>f\<in>set (glob_m4s (files (fresh fs_twice)) [''v'', ''A'']). \<not> endswith (stem (name f)) ''280'')"
    by code_simp
  have present:
    "\<forall>f\<in>set (glob_m4s (files (fresh fs_twice)) [''v'', ''A'']). exists_path (files (fresh fs_twice)) f"
    by code_simp
  from find_m4s_files_fails [OF two_videos] present show ?thesis by blast
qed

lemma parent_with_suffix: "with_suffix p s = Returned t \<Longrightarrow> t \<noteq> [] \<and> parent t = parent p"
  by (auto simp: with_suffix_def parent_def split: if_splits)

lemma open_wb_makes:
  assumes "is_dir fs (parent t)" "t \<noteq> []"
    and "lookup fs t \<noteq> Some Dir" "lookup fs t \<noteq> Some BrokenLink"
  shows "open_wb fs t = Inr (AList.update t (File []) fs)"
  using assms
  by (auto simp: open_wb_def parent_error_def is_dir_def split: option.splits node.splits)

lemma write_bytes_fits:
  "has_room rm t (length c) \<Longrightarrow> write_bytes rm fs t c = (None, AList.update t (File c) fs)"
  by (auto simp: write_bytes_def has_room_def split: option.splits)

lemma remove_encryption_header_succeeds:
  assumes src: "lookup (files w) p = Some (File bs)"
    and dir: "is_dir (files w) (parent p)"
    and temp: "with_suffix p ''.temp'' = Returned t"
    and free: "lookup (files w) t \<noteq> Some Dir" "lookup (files w) t \<noteq> Some BrokenLink"
    and fits: "has_room (room w) t (length bs - 9)"
  shows "\<exists>w'. remove_encryption_header p w = (Returned (Some t), w')
           \<and> lookup (files w') t = Some (File (drop 9 bs))"
proof -
  from parent_with_suffix [OF temp] have t: "t \<noteq> []" "parent t = parent p" by simp_all
  have opened: "open_wb (files w) t = Inr (AList.update t (File []) (files w))"
    using open_wb_makes [of "files w" t] t dir free by simp
  have written: "write_bytes (room w) (AList.update t (File []) (files w)) t (drop 9 bs)
      = (None, AList.update t (File (drop 9 bs)) (AList.update t (File []) (files w)))"
    using fits by (intro write_bytes_fits) simp
  show ?thesis using src temp t opened written
    by (simp add: remove_encryption_header_def read_from_def lookup_update)
qed

text \<open>
  Claim C3. For a file of \<open>9 + N\<close> bytes in a directory, whose \<^verbatim>\<open>.temp\<close> sibling can be
  written (it is no directory and no broken link, and there is room for \<open>N\<close> bytes),
  \<^verbatim>\<open>remove_encryption_header\<close> returns the
  \<^verbatim>\<open>.temp\<close> path and the file there holds exactly the last \<open>N\<close> bytes of the input: the input
  is its first 9 bytes followed by the output.
\<close>

theorem remove_encryption_header_keeps_tail:
  assumes src: "lookup (files w) p = Some (File bs)"
    and len: "length bs = 9 + N"
    and dir: "is_dir (files w) (parent p)"
    and temp: "with_suffix p ''.temp'' = Returned t"
    and free: "lookup (files w) t \<noteq> Some Dir" "lookup (files w) t \<noteq> Some BrokenLink"
    and fits: "has_room (room w) t N"
  shows "\<exists>w' out. remove_encryption_header p w = (Returned (Some t), w')
           \<and> lookup (files w') t = Some (File out)
           \<and> length out = N \<and> bs = take 9 bs @ out \<and> out = drop (length bs - N) bs"
proof -
  from fits len have "has_room (room w) t (length bs - 9)" by simp
  from remove_encryption_header_succeeds [OF src dir temp free this] len
  show ?thesis by auto
qed

theorem remove_encryption_header_keeps_tail_witness:
  "\<exists>w' out. remove_encryption_header [''v'', ''A'', ''x080.m4s''] (fresh fs_pair)
               = (Returned (Some [''v'', ''A'', ''x080.temp'']), w')
           \<and> lookup (files w') [''v'', ''A'', ''x080.temp''] = Some (File out)
           \<and> length out = 3
           \<and> [0, 1, 2, 3, 4, 5, 6, 7, 8, 9, 10, 11] = take 9 [0, 1, 2, 3, 4, 5, 6, 7, 8, 9, 10, 11] @ out
           \<and> out = drop (length [0, 1, 2, 3, 4, 5, 6, 7, 8, 9, 10, 11 :: byte] - 3)
                      [0, 1, 2, 3, 4, 5, 6, 7, 8, 9, 10, 11]"
  by (rule remove_encryption_header_keeps_tail; code_simp)

text \<open>
  Claim C4. For a file shorter than 9 bytes in a directory, whose \<^verbatim>\<open>.temp\<close> sibling is no
  directory and no broken link, \<^verbatim>\<open>remove_encryption_header\<close> raises nothing: it returns the
  \<^verbatim>\<open>.temp\<close> path, and the file there is empty (writing nothing needs no room).
\<close>

theorem remove_encryption_header_short_file:
  assumes src: "lookup (files w) p = Some (File bs)"
    and len: "length bs < 9"
    and dir: "is_dir (files w) (parent p)"
    and temp: "with_suffix p ''.temp'' = Returned t"
    and free: "lookup (files w) t \<noteq> Some Dir" "lookup (files w) t \<noteq> Some BrokenLink"
  shows "\<exists>w'. remove_encryption_header p w = (Returned (Some t), w')
           \<and> lookup (files w') t = Some (File [])"
proof -
  from len have "has_room (room w) t (length bs - 9)"
    by (simp add: has_room_def split: option.splits)
  from remove_encryption_header_succeeds [OF src dir temp free this] len
  show ?thesis by auto
qed

theorem remove_encryption_header_short_file_witness:
  "\<exists>w'. remove_encryption_header [''v'', ''A'', ''x080.m4s''] (fresh fs_short)
               = (Returned (Some [''v'', ''A'', ''x080.temp'']), w')
           \<and> lookup (files w') [''v'', ''A'', ''x080.temp''] = Some (File [])"
  by (rule remove_encryption_header_short_file [where bs = "[7, 7, 7]"]; code_simp)

section \<open>Failure paths of one folder\<close>

lemma open_wb_result: "open_wb fs t = Inr fs1 \<Longrightarrow> t \<noteq> [] \<and> fs1 = AList.update t (File []) fs"
  by (auto simp: open_wb_def split: if_splits option.splits node.splits)

lemma write_bytes_result:
  "write_bytes rm fs1 t c = (r, fs2) \<Longrightarrow> \<exists>c'. fs2 = AList.update t (File c') fs1"
  by (auto simp: write_bytes_def split: option.splits if_splits)

lemma remove_encryption_header_None:
  "remove_encryption_header p w = (Returned None, w') \<Longrightarrow>
     files w' = files w
     \<or> (\<exists>t c. with_suffix p ''.temp'' = Returned t \<and> t \<noteq> []
           \<and> files w' = AList.update t (File c) (files w))"
  by (auto simp: remove_encryption_header_def
      split: res.splits sum.splits prod.splits option.splits
      dest!: open_wb_result write_bytes_result)

lemma remove_encryption_header_Some:
  "remove_encryption_header p w = (Returned (Some t), w') \<Longrightarrow>
     t \<noteq> [] \<and> (\<exists>c. files w' = AList.update t (File c) (files w))"
  by (auto simp: remove_encryption_header_def
      split: res.splits sum.splits prod.splits option.splits
      dest!: open_wb_result write_bytes_result)

text \<open>What a failed strip can have touched is its own \<^verbatim>\<open>.temp\<close> path, where it leaves a file.\<close>

lemma failed_strip_frame:
  assumes "remove_encryption_header p w = (Returned None, w')"
  shows "(\<forall>q. Returned q \<noteq> with_suffix p ''.temp'' \<longrightarrow> lookup (files w') q = lookup (files w) q)
       \<and> (\<forall>q c. lookup (files w) q = Some (File c) \<longrightarrow> (\<exists>c'. lookup (files w') q = Some (File c')))"
  using remove_encryption_header_None [OF assms]
  by (auto simp: lookup_update)

lemma audio_strip_failure:
  assumes pair: "find_m4s_files folder (logger INFO (ProcessingFolder (name folder)) w)
                   = (Returned (Some v, Some a), w1)"
    and video: "remove_encryption_header v w1 = (Returned (Some video_temp), w2)"
    and audio: "remove_encryption_header a w2 = (Returned None, w3)"
  shows "video_temp \<noteq> []
     \<and> convert_single_folder run self folder w
         = (Returned False, w3\<lparr>files := AList.delete video_temp (files w3)\<rparr>)
     \<and> (\<forall>q. q \<noteq> video_temp \<longrightarrow> Returned q \<noteq> with_suffix a ''.temp'' \<longrightarrow>
            lookup (files w3) q = lookup (files w) q)"
proof -
  from remove_encryption_header_Some [OF video] obtain c where
    t: "video_temp \<noteq> []" and w2: "files w2 = AList.update video_temp (File c) (files w1)"
    by blast
  from find_m4s_files_files [OF pair] have w1: "files w1 = files w" by simp
  from t w2 have "lookup (files w2) video_temp = Some (File c)"
    by (simp add: lookup_update)
  with failed_strip_frame [OF audio] obtain c' where
    "lookup (files w3) video_temp = Some (File c')" by blast
  then have "unlink (files w3) video_temp = Inr (AList.delete video_temp (files w3))"
    by (simp add: unlink_def)
  then have result: "convert_single_folder run self folder w
     = (Returned False, w3\<lparr>files := AList.delete video_temp (files w3)\<rparr>)"
    using pair video audio by (simp add: convert_single_folder_def)
  have "lookup (files w3) q = lookup (files w) q"
    if "q \<noteq> video_temp" "Returned q \<noteq> with_suffix a ''.temp''" for q
    using failed_strip_frame [OF audio] that t w2 w1 by (simp add: lookup_update)
  with t result show ?thesis by blast
qed



text \<open>
  Claim C7 as stated fails for the rename step: with a directory \<^verbatim>\<open>y280.mp4\<close> in the folder
  the second \<^verbatim>\<open>rename\<close> raises, \<^verbatim>\<open>False\<close> is returned, and the stripped audio file
  \<^verbatim>\<open>y280.temp\<close> and the promoted video file \<^verbatim>\<open>x080.mp4\<close>, both made by this conversion,
  are still there.
\<close>

theorem rename_failure_leaves_intermediates:
  "fst (convert_single_folder ffmpeg_ok tool [''v'', ''A''] (fresh fs_blocked)) = Returned False
   \<and> lookup (files (fresh fs_blocked)) [''v'', ''A'', ''y280.temp''] = None
   \<and> lookup (files (snd (convert_single_folder ffmpeg_ok tool [''v'', ''A''] (fresh fs_blocked))))
        [''v'', ''A'', ''y280.temp''] = Some (File [9])
   \<and> lookup (files (fresh fs_blocked)) [''v'', ''A'', ''x080.mp4''] = None
   \<and> lookup (files (snd (convert_single_folder ffmpeg_ok tool [''v'', ''A''] (fresh fs_blocked))))
        [''v'', ''A'', ''x080.mp4''] = Some (File [9, 10, 11])"
  by code_simp

lemma video_strip_failure:
  assumes pair: "find_m4s_files folder (logger INFO (ProcessingFolder (name folder)) w)
                   = (Returned (Some v, Some a), w1)"
    and video: "remove_encryption_header v w1 = (Returned None, w2)"
  shows "convert_single_folder run self folder w = (Returned False, w2)
     \<and> (\<forall>q. Returned q \<noteq> with_suffix v ''.temp'' \<longrightarrow> lookup (files w2) q = lookup (files w) q)"
  using pair video find_m4s_files_files [OF pair] failed_strip_frame [OF video]
  by (simp add: convert_single_folder_def)

lemma with_suffix_again:
  "with_suffix p s = Returned t \<Longrightarrow> s \<noteq> [] \<Longrightarrow> \<exists>t'. with_suffix t s' = Returned t'"
  by (auto simp: with_suffix_def name_def split: if_splits)

lemma promote_rename_failure:
  assumes "with_suffix video_temp ''.mp4'' = Returned video_mp4"
    and "with_suffix audio_temp ''.mp4'' = Returned audio_mp4"
  shows "(\<forall>e. rename (files w) video_temp video_mp4 = Inl e \<longrightarrow>
            promote_and_merge run self folder video_temp audio_temp w
              = (Returned False, logger ERROR (RenameFailed e) w))
       \<and> (\<forall>fs1 e. rename (files w) video_temp video_mp4 = Inr fs1
                   \<and> rename fs1 audio_temp audio_mp4 = Inl e \<longrightarrow>
            promote_and_merge run self folder video_temp audio_temp w
              = (Returned False, logger ERROR (RenameFailed e) (w\<lparr>files := fs1\<rparr>)))"
  using assms by (simp add: promote_and_merge_def)

text \<open>
  A strip that runs out of room leaves its own truncated \<^verbatim>\<open>.temp\<close> file behind: \<^verbatim>\<open>open\<close>
  made the file before \<^verbatim>\<open>write\<close> raised, and the \<^verbatim>\<open>except\<close> branch only logs.
\<close>

lemma full_disk_leaves_truncated_temp:
  "fst (convert_single_folder ffmpeg_ok tool [''v'', ''A''] cramped) = Returned False
   \<and> lookup (files cramped) [''v'', ''A'', ''x080.temp''] = None
   \<and> lookup (files (snd (convert_single_folder ffmpeg_ok tool [''v'', ''A''] cramped)))
        [''v'', ''A'', ''x080.temp''] = Some (File [9, 10])"
  by code_simp

text \<open>
  Claim C7, amended. After a failed strip step \<^verbatim>\<open>convert_single_folder\<close> returns \<^verbatim>\<open>False\<close>
  and what the earlier steps of the folder made is gone: every entry of the file system it
  leaves was there before with the same content, unless it is the \<^verbatim>\<open>.temp\<close> path of the
  failing strip itself, about which nothing is said; after a failed audio strip the video
  \<^verbatim>\<open>.temp\<close> file is absent. A failed rename step removes nothing: the file system is the one
  the strip steps left when the first \<^verbatim>\<open>rename\<close> fails, and the one the first \<^verbatim>\<open>rename\<close> left
  when the second fails.
\<close>

theorem failed_step_intermediates:
  fixes w :: world and folder v a :: path
  defines "w1 \<equiv> snd (find_m4s_files folder (logger INFO (ProcessingFolder (name folder)) w))"
  defines "w2 \<equiv> snd (remove_encryption_header v w1)"
  defines "w3 \<equiv> snd (remove_encryption_header a w2)"
  assumes pair: "fst (find_m4s_files folder (logger INFO (ProcessingFolder (name folder)) w))
                   = Returned (Some v, Some a)"
  shows "(fst (remove_encryption_header v w1) = Returned None
          \<longrightarrow> (\<exists>w'. convert_single_folder run self folder w = (Returned False, w')
                \<and> (\<forall>q n. lookup (files w') q = Some n \<longrightarrow>
                      lookup (files w) q = Some n \<or> with_suffix v ''.temp'' = Returned q)))
       \<and> (fst (remove_encryption_header v w1) = Returned (Some video_temp)
            \<and> fst (remove_encryption_header a w2) = Returned None
          \<longrightarrow> (\<exists>w'. convert_single_folder run self folder w = (Returned False, w')
                \<and> lookup (files w') video_temp = None
                \<and> (\<forall>q n. lookup (files w') q = Some n \<longrightarrow>
                      lookup (files w) q = Some n \<or> with_suffix a ''.temp'' = Returned q)))
       \<and> (fst (remove_encryption_header v w1) = Returned (Some video_temp)
          \<and> fst (remove_encryption_header a w2) = Returned (Some audio_temp)
          \<and> with_suffix video_temp ''.mp4'' = Returned video_mp4
          \<and> with_suffix audio_temp ''.mp4'' = Returned audio_mp4
          \<longrightarrow> (\<forall>e. rename (files w3) video_temp video_mp4 = Inl e \<longrightarrow>
                  (\<exists>w'. convert_single_folder run self folder w = (Returned False, w')
                     \<and> files w' = files w3))
              \<and> (\<forall>fs1 e. rename (files w3) video_temp video_mp4 = Inr fs1
                        \<and> rename fs1 audio_temp audio_mp4 = Inl e \<longrightarrow>
                  (\<exists>w'. convert_single_folder run self folder w = (Returned False, w')
                     \<and> files w' = fs1)))"
proof -
  have pair': "find_m4s_files folder (logger INFO (ProcessingFolder (name folder)) w)
                 = (Returned (Some v, Some a), w1)"
    using pair by (simp add: w1_def prod_eq_iff)
  have video_failed: "\<exists>w'. convert_single_folder run self folder w = (Returned False, w')
                \<and> (\<forall>q n. lookup (files w') q = Some n \<longrightarrow>
                      lookup (files w) q = Some n \<or> with_suffix v ''.temp'' = Returned q)"
    if "fst (remove_encryption_header v w1) = Returned None"
  proof -
    from that have "remove_encryption_header v w1 = (Returned None, w2)"
      by (simp add: w2_def prod_eq_iff)
    from video_strip_failure [OF pair' this, of run self] show ?thesis
      by (intro exI [of _ w2]) (metis (no_types))
  qed
  have audio_failed: "\<exists>w'. convert_single_folder run self folder w = (Returned False, w')
                \<and> lookup (files w') video_temp = None
                \<and> (\<forall>q n. lookup (files w') q = Some n \<longrightarrow>
                      lookup (files w) q = Some n \<or> with_suffix a ''.temp'' = Returned q)"
    if "fst (remove_encryption_header v w1) = Returned (Some video_temp)
            \<and> fst (remove_encryption_header a w2) = Returned None"
  proof -
    from that have video': "remove_encryption_header v w1 = (Returned (Some video_temp), w2)"
      and audio': "remove_encryption_header a w2 = (Returned None, w3)"
      by (simp_all add: w2_def w3_def prod_eq_iff)
    let ?w' = "w3\<lparr>files := AList.delete video_temp (files w3)\<rparr>"
    from audio_strip_failure [OF pair' video' audio', of run self]
    have t: "video_temp \<noteq> []"
      and result: "convert_single_folder run self folder w = (Returned False, ?w')"
      and frame: "\<And>q. q \<noteq> video_temp \<Longrightarrow> Returned q \<noteq> with_suffix a ''.temp'' \<Longrightarrow>
            lookup (files w3) q = lookup (files w) q"
      by blast+
    have gone: "lookup (files ?w') video_temp = None"
      using t by (simp add: lookup_delete)
    have old: "lookup (files w) q = Some n \<or> with_suffix a ''.temp'' = Returned q"
      if "lookup (files ?w') q = Some n" for q n
    proof (cases "q = video_temp")
      case True
      with that gone show ?thesis by simp
    next
      case False
      with that t have "lookup (files w3) q = Some n" by (simp add: lookup_delete)
      with frame [OF False] show ?thesis by (cases "with_suffix a ''.temp'' = Returned q") auto
    qed
    from result gone old show ?thesis by blast
  qed
  have promote: "convert_single_folder run self folder w
      = promote_and_merge run self folder video_temp audio_temp w3"
    if "fst (remove_encryption_header v w1) = Returned (Some video_temp)"
      and "fst (remove_encryption_header a w2) = Returned (Some audio_temp)"
  proof -
    from that have "remove_encryption_header v w1 = (Returned (Some video_temp), w2)"
      and "remove_encryption_header a w2 = (Returned (Some audio_temp), w3)"
      by (simp_all add: w2_def w3_def prod_eq_iff)
    with pair' show ?thesis by (simp add: convert_single_folder_def)
  qed
  have renames: "(\<forall>e. rename (files w3) video_temp video_mp4 = Inl e \<longrightarrow>
                  (\<exists>w'. convert_single_folder run self folder w = (Returned False, w')
                     \<and> files w' = files w3))
              \<and> (\<forall>fs1 e. rename (files w3) video_temp video_mp4 = Inr fs1
                        \<and> rename fs1 audio_temp audio_mp4 = Inl e \<longrightarrow>
                  (\<exists>w'. convert_single_folder run self folder w = (Returned False, w')
                     \<and> files w' = fs1))"
    if "fst (remove_encryption_header v w1) = Returned (Some video_temp)
          \<and> fst (remove_encryption_header a w2) = Returned (Some audio_temp)
          \<and> with_suffix video_temp ''.mp4'' = Returned video_mp4
          \<and> with_suffix audio_temp ''.mp4'' = Returned audio_mp4"
    using that promote
      promote_rename_failure [of video_temp video_mp4 audio_temp audio_mp4 w3 run self folder]
    by auto
  from video_failed audio_failed renames show ?thesis by blast
qed

theorem failed_step_intermediates_witness:
  "(\<exists>w'. convert_single_folder ffmpeg_ok tool [''v'', ''A''] cramped = (Returned False, w')
       \<and> lookup (files w') [''v'', ''A'', ''y280.temp''] = None)
   \<and> (\<exists>w'. convert_single_folder ffmpeg_ok tool [''v'', ''A''] (fresh fs_audio_dir) = (Returned False, w')
       \<and> lookup (files w') [''v'', ''A'', ''x080.temp''] = None)
   \<and> (\<exists>w'. convert_single_folder ffmpeg_ok tool [''v'', ''A''] (fresh fs_blocked) = (Returned False, w')
       \<and> files w' =
           [([''v''], Dir), ([''v'', ''A''], Dir),
            ([''v'', ''A'', ''x080.m4s''], File [0, 1, 2, 3, 4, 5, 6, 7, 8, 9, 10, 11]),
            ([''v'', ''A'', ''y280.m4s''], File [0, 1, 2, 3, 4, 5, 6, 7, 8, 9]),
            ([''v'', ''A'', ''y280.mp4''], Dir),
            ([''v'', ''A'', ''y280.temp''], File [9]),
            ([''v'', ''A'', ''x080.mp4''], File [9, 10, 11])])"
proof -
  let ?v = "[''v'', ''A'', ''x080.m4s'']" and ?a = "[''v'', ''A'', ''y280.m4s'']"
  let ?vt = "[''v'', ''A'', ''x080.temp'']" and ?at = "[''v'', ''A'', ''y280.temp'']"
  let ?vm = "[''v'', ''A'', ''x080.mp4'']" and ?am = "[''v'', ''A'', ''y280.mp4'']"
  let ?start = "\<lambda>w. logger INFO (ProcessingFolder (name [''v'', ''A''])) w"
  let ?w1 = "\<lambda>w. snd (find_m4s_files [''v'', ''A''] (?start w))"
  let ?w2 = "\<lambda>w. snd (remove_encryption_header ?v (?w1 w))"
  let ?w3 = "\<lambda>w. snd (remove_encryption_header ?a (?w2 w))"
  have pair0: "fst (find_m4s_files [''v'', ''A''] (?start cramped)) = Returned (Some ?v, Some ?a)"
    by code_simp
  have video_failed: "fst (remove_encryption_header ?v (?w1 cramped)) = Returned None"
    by code_simp
  have other: "lookup (files cramped) ?at = None" "with_suffix ?v ''.temp'' \<noteq> Returned ?at"
    by code_simp+
  from failed_step_intermediates [OF pair0, where run = ffmpeg_ok and self = tool,
      THEN conjunct1, rule_format, OF video_failed]
  obtain w0 where w0: "convert_single_folder ffmpeg_ok tool [''v'', ''A''] cramped = (Returned False, w0)"
    and old0: "\<And>q n. lookup (files w0) q = Some n \<Longrightarrow>
                 lookup (files cramped) q = Some n \<or> with_suffix ?v ''.temp'' = Returned q"
    by blast
  have "lookup (files w0) ?at = None"
    using old0 [of ?at] other by (cases "lookup (files w0) ?at") auto
  with w0 have zeroth: "\<exists>w'. convert_single_folder ffmpeg_ok tool [''v'', ''A''] cramped = (Returned False, w')
       \<and> lookup (files w') ?at = None"
    by blast
  have pair1: "fst (find_m4s_files [''v'', ''A''] (?start (fresh fs_audio_dir)))
                 = Returned (Some ?v, Some ?a)"
    by code_simp
  have audio_failed: "fst (remove_encryption_header ?v (?w1 (fresh fs_audio_dir))) = Returned (Some ?vt)
            \<and> fst (remove_encryption_header ?a (?w2 (fresh fs_audio_dir))) = Returned None"
    by code_simp
  from failed_step_intermediates [OF pair1, where run = ffmpeg_ok and self = tool,
      THEN conjunct2, THEN conjunct1, rule_format, OF audio_failed]
  have first: "\<exists>w'. convert_single_folder ffmpeg_ok tool [''v'', ''A''] (fresh fs_audio_dir) = (Returned False, w')
       \<and> lookup (files w') ?vt = None"
    by blast
  have pair2: "fst (find_m4s_files [''v'', ''A''] (?start (fresh fs_blocked)))
                 = Returned (Some ?v, Some ?a)"
    by code_simp
  have stripped: "fst (remove_encryption_header ?v (?w1 (fresh fs_blocked))) = Returned (Some ?vt)
          \<and> fst (remove_encryption_header ?a (?w2 (fresh fs_blocked))) = Returned (Some ?at)
          \<and> with_suffix ?vt ''.mp4'' = Returned ?vm
          \<and> with_suffix ?at ''.mp4'' = Returned ?am"
    by code_simp
  let ?fs1 = "[([''v''], Dir), ([''v'', ''A''], Dir),
            ([''v'', ''A'', ''x080.m4s''], File [0, 1, 2, 3, 4, 5, 6, 7, 8, 9, 10, 11]),
            ([''v'', ''A'', ''y280.m4s''], File [0, 1, 2, 3, 4, 5, 6, 7, 8, 9]),
            ([''v'', ''A'', ''y280.mp4''], Dir),
            ([''v'', ''A'', ''y280.temp''], File [9]),
            ([''v'', ''A'', ''x080.mp4''], File [9, 10, 11])]"
  have renames: "rename (files (?w3 (fresh fs_blocked))) ?vt ?vm = Inr ?fs1
                        \<and> rename ?fs1 ?at ?am = Inl IsADirectoryError"
    by code_simp
  from failed_step_intermediates [OF pair2, where run = ffmpeg_ok and self = tool,
      THEN conjunct2, THEN conjunct2, rule_format, OF stripped, THEN conjunct2, rule_format, OF renames]
  have second: "\<exists>w'. convert_single_folder ffmpeg_ok tool [''v'', ''A''] (fresh fs_blocked) = (Returned False, w')
       \<and> files w' = ?fs1" .
  from zeroth first second show ?thesis by blast
qed

section \<open>The batch driver and the constructor\<close>

lemma processed_logger [simp]: "processed (logger l e w) = processed w @ started (l, e)"
  by (simp add: processed_def)

lemma converted_logger [simp]: "converted (logger l e w) = converted w @ succeeded (l, e)"
  by (simp add: converted_def)

lemma processed_files [simp]: "processed (w\<lparr>files := fs\<rparr>) = processed w"
  by (simp add: processed_def)

lemma converted_files [simp]: "converted (w\<lparr>files := fs\<rparr>) = converted w"
  by (simp add: converted_def)

lemma remove_encryption_header_quiet:
  "remove_encryption_header p w = (r, w') \<Longrightarrow>
     processed w' = processed w \<and> converted w' = converted w"
  by (auto simp: remove_encryption_header_def
      split: res.splits sum.splits prod.splits option.splits)

lemma find_m4s_loop_quiet:
  "find_m4s_loop g va w = (r, w') \<Longrightarrow> processed w' = processed w \<and> converted w' = converted w"
proof (induction g va w rule: find_m4s_loop.induct)
  case (1 va w)
  then show ?case by simp
next
  case (2 f rest vf af w)
  then show ?case
    by (auto simp: Let_def split: if_splits sum.splits)
qed

lemma find_m4s_files_quiet:
  "find_m4s_files folder w = (r, w') \<Longrightarrow> processed w' = processed w \<and> converted w' = converted w"
  by (auto simp: find_m4s_files_def Let_def split: if_splits prod.splits res.splits
      dest: find_m4s_loop_quiet)

lemma merge_video_audio_quiet:
  "merge_video_audio run vf af out w = (r, w') \<Longrightarrow>
     processed w' = processed w \<and> converted w' = converted w"
  by (auto simp: merge_video_audio_def subprocess_run_def Let_def
      split: prod.splits sum.splits exn.splits proc.splits if_splits)

lemma promote_and_merge_quiet:
  "promote_and_merge run self folder vt at w = (r, w') \<Longrightarrow>
     processed w' = processed w \<and> converted w' = converted w"
  by (auto simp: promote_and_merge_def Let_def
      split: res.splits sum.splits prod.splits dest: merge_video_audio_quiet)

lemma convert_single_folder_log:
  assumes "convert_single_folder run self folder w = (r, w')"
  shows "processed w' = processed w @ [name folder] \<and> converted w' = converted w"
proof -
  let ?w0 = "logger INFO (ProcessingFolder (name folder)) w"
  have start: "processed ?w0 = processed w @ [name folder]" "converted ?w0 = converted w"
    by simp_all
  obtain r1 w1 where f: "find_m4s_files folder ?w0 = (r1, w1)"
    by (cases "find_m4s_files folder ?w0") blast
  from find_m4s_files_quiet [OF f] start
  have w1: "processed w1 = processed w @ [name folder]" "converted w1 = converted w"
    by simp_all
  show ?thesis
    using assms f w1
    by (auto simp: convert_single_folder_def
        split: res.splits prod.splits option.splits sum.splits
        dest!: remove_encryption_header_quiet promote_and_merge_quiet)
qed

lemma convert_loop_log:
  "convert_loop run self ps (s, t) w = (r, w') \<Longrightarrow>
     \<exists>ns cs. processed w' = processed w @ ns \<and> converted w' = converted w @ cs
       \<and> ''converted_videos'' \<notin> set ns \<and> set ns \<subseteq> name ` set ps
       \<and> (\<forall>s' t'. r = Returned (s', t') \<longrightarrow> s' = s + length cs \<and> t' = t + length ns)"
proof (induction ps arbitrary: s t w)
  case Nil
  then show ?case by auto
next
  case (Cons p ps)
  show ?case
  proof (cases "is_dir (files w) p \<and> name p \<noteq> ''converted_videos''")
    case False
    with Cons.prems have "convert_loop run self ps (s, t) w = (r, w')" by auto
    from Cons.IH [OF this] show ?thesis by auto
  next
    case True
    obtain r1 w1 where one: "convert_single_folder run self p w = (r1, w1)"
      by (cases "convert_single_folder run self p w") blast
    from convert_single_folder_log [OF one]
    have w1: "processed w1 = processed w @ [name p]" "converted w1 = converted w" by simp_all
    show ?thesis
    proof (cases r1)
      case (Raised e)
      with Cons.prems True one have "r = Raised e" "w' = w1" by auto
      with w1 True show ?thesis by auto
    next
      case (Returned ok)
      show ?thesis
      proof (cases ok)
        case True
        with Cons.prems \<open>is_dir (files w) p \<and> name p \<noteq> ''converted_videos''\<close> one Returned
        have "convert_loop run self ps (s + 1, t + 1) (logger INFO (Converted (name p)) w1) = (r, w')"
          by simp
        from Cons.IH [OF this] obtain ns cs where
          "processed w' = processed w @ name p # ns" "converted w' = converted w @ name p # cs"
          "''converted_videos'' \<notin> set ns" "set ns \<subseteq> name ` set ps"
          "\<forall>s' t'. r = Returned (s', t') \<longrightarrow> s' = s + 1 + length cs \<and> t' = t + 1 + length ns"
          using w1 by auto
        with \<open>is_dir (files w) p \<and> name p \<noteq> ''converted_videos''\<close> show ?thesis
          by (intro exI [of _ "name p # ns"] exI [of _ "name p # cs"]) auto
      next
        case False
        with Cons.prems \<open>is_dir (files w) p \<and> name p \<noteq> ''converted_videos''\<close> one Returned
        have "convert_loop run self ps (s, t + 1) (logger ERROR (ConvertFailed (name p)) w1) = (r, w')"
          by simp
        from Cons.IH [OF this] obtain ns cs where
          "processed w' = processed w @ name p # ns" "converted w' = converted w @ cs"
          "''converted_videos'' \<notin> set ns" "set ns \<subseteq> name ` set ps"
          "\<forall>s' t'. r = Returned (s', t') \<longrightarrow> s' = s + length cs \<and> t' = t + 1 + length ns"
          using w1 by auto
        with \<open>is_dir (files w) p \<and> name p \<noteq> ''converted_videos''\<close> show ?thesis
          by (intro exI [of _ "name p # ns"] exI [of _ cs]) auto
      qed
    qed
  qed
qed

text \<open>
  Claim C8. Whatever \<^verbatim>\<open>convert_all\<close> does, from any world (so on a second run as well) and
  with any muxer, the folders it hands to \<^verbatim>\<open>convert_single_folder\<close> are entries of the input
  root, and none of them is named \<^verbatim>\<open>converted_videos\<close>.
\<close>

theorem output_folder_never_processed:
  assumes "convert_all run self w = (r, w')"
  shows "\<exists>ns. processed w' = processed w @ ns \<and> ''converted_videos'' \<notin> set ns
           \<and> set ns \<subseteq> name ` set (children (files w) (input_dir self))"
proof (cases "exists_path (files w) (input_dir self)")
  case False
  with assms show ?thesis by (auto simp: convert_all_def)
next
  case True
  show ?thesis
  proof (cases "iterdir (files w) (input_dir self)")
    case (Inl e)
    with assms True show ?thesis by (auto simp: convert_all_def)
  next
    case (Inr entries)
    then have entries: "entries = children (files w) (input_dir self)"
      by (auto simp: iterdir_def split: option.splits node.splits)
    obtain r1 w1 where loop: "convert_loop run self entries (0, 0) w = (r1, w1)"
      by (cases "convert_loop run self entries (0, 0) w") blast
    from convert_loop_log [OF loop] obtain ns where
      ns: "processed w1 = processed w @ ns" "''converted_videos'' \<notin> set ns"
        "set ns \<subseteq> name ` set entries"
      by blast
    have "processed w' = processed w1"
      using assms True Inr loop
      by (auto simp: convert_all_def split: res.splits prod.splits)
    with ns entries show ?thesis by auto
  qed
qed

theorem output_folder_never_processed_witness:
  "\<exists>ns. processed (snd (convert_all ffmpeg_ok tool (snd (convert_all ffmpeg_ok tool (fresh fs_batch)))))
           = processed (snd (convert_all ffmpeg_ok tool (fresh fs_batch))) @ ns
      \<and> ''converted_videos'' \<notin> set ns
      \<and> set ns \<subseteq> name ` set (children (files (snd (convert_all ffmpeg_ok tool (fresh fs_batch))))
                                   (input_dir tool))"
  by (rule output_folder_never_processed [OF surjective_pairing])

lemma second_run_example:
  "processed (snd (convert_all ffmpeg_ok tool (snd (convert_all ffmpeg_ok tool (fresh fs_batch)))))
     = [''A'', ''B'', ''A'', ''B'']"
  by code_simp




lemma logger_last: "logger l e w = logger l' e' w' \<Longrightarrow> l = l' \<and> e = e'"
  by (drule arg_cong [where f = log]) simp

lemma fail_fast_only_without_input:
  assumes "convert_all run self w = (Returned (PyInt 0), logger ERROR (InputDirMissing (input_dir self)) w)"
  shows "\<not> exists_path (files w) (input_dir self)"
proof
  assume "exists_path (files w) (input_dir self)"
  with assms obtain w1 where
    "logger INFO (OutputDir (output_dir self)) w1 = logger ERROR (InputDirMissing (input_dir self)) w"
    by (auto simp: convert_all_def split: sum.splits res.splits prod.splits)
  from logger_last [OF this] show False by simp
qed

lemma mkdir_parent:
  "mkdir fs p = Inr fs' \<Longrightarrow> p \<noteq> [] \<Longrightarrow> exists_path fs' (parent p) \<and> is_dir fs' p"
  by (auto simp: mkdir_def os_mkdir_def parent_error_def exists_path_def is_dir_def lookup_def
      parent_def map_add_def
      split: sum.splits if_splits option.splits node.splits)

text \<open>
  Claim C10. \<^verbatim>\<open>__init__\<close> makes the output directory before anything asks whether the input
  root exists: on an input root that does not exist it raises \<^verbatim>\<open>FileNotFoundError\<close> (the
  parent of the output directory is missing) and changes nothing. When it returns, the input
  root exists; \<^verbatim>\<open>convert_all\<close> takes its return-0 path only in a world where the input root
  does not exist, so never on the file system the construction left.
\<close>

theorem init_makes_output_dir_first:
  "(\<not> exists_path (files w) inp \<longrightarrow> init inp w = (Raised FileNotFoundError, w))
   \<and> (\<forall>self w'. init inp w = (Returned self, w') \<longrightarrow>
        input_dir self = inp \<and> is_dir (files w') (output_dir self) \<and> exists_path (files w') inp
        \<and> (\<forall>run w2. convert_all run self w2
               = (Returned (PyInt 0), logger ERROR (InputDirMissing (input_dir self)) w2) \<longrightarrow>
             \<not> exists_path (files w2) inp \<and> files w2 \<noteq> files w'))"
proof (intro conjI impI allI)
  assume "\<not> exists_path (files w) inp"
  then have "mkdir (files w) (inp @ [''converted_videos'']) = Inl FileNotFoundError"
    by (auto simp: mkdir_def os_mkdir_def parent_error_def parent_def exists_path_def
        split: option.splits node.splits)
  then show "init inp w = (Raised FileNotFoundError, w)"
    by (simp add: init_def Let_def)
next
  fix self w'
  assume ok: "init inp w = (Returned self, w')"
  then obtain fs' where made: "mkdir (files w) (inp @ [''converted_videos'']) = Inr fs'"
    and self: "self = \<lparr>input_dir = inp, output_dir = inp @ [''converted_videos'']\<rparr>"
    and w': "w' = w\<lparr>files := fs'\<rparr>"
    by (auto simp: init_def Let_def split: sum.splits)
  from mkdir_parent [OF made] have there: "exists_path fs' inp" "is_dir fs' (inp @ [''converted_videos''])"
    by (simp_all add: parent_def)
  show "input_dir self = inp" using self by simp
  show "is_dir (files w') (output_dir self)" using self w' there by simp
  show "exists_path (files w') inp" using w' there by simp
  fix run w2
  assume "convert_all run self w2
               = (Returned (PyInt 0), logger ERROR (InputDirMissing (input_dir self)) w2)"
  from fail_fast_only_without_input [OF this] self have gone: "\<not> exists_path (files w2) inp"
    by simp
  then show "\<not> exists_path (files w2) inp" .
  from gone there w' show "files w2 \<noteq> files w'" by auto
qed

theorem init_makes_output_dir_first_witness:
  "init [''v''] (fresh []) = (Raised FileNotFoundError, fresh [])
   \<and> is_dir (files (snd (init [''v''] (fresh fs_pair)))) [''v'', ''converted_videos'']
   \<and> exists_path (files (snd (init [''v''] (fresh fs_pair)))) [''v'']"
proof -
  have missing: "\<not> exists_path (files (fresh [])) [''v'']"
    by code_simp
  have made: "init [''v''] (fresh fs_pair) = (Returned tool, snd (init [''v''] (fresh fs_pair)))"
    by code_simp
  have out: "output_dir tool = [''v'', ''converted_videos'']"
    by (simp add: tool_def)
  from init_makes_output_dir_first [THEN conjunct1, rule_format, OF missing]
    init_makes_output_dir_first [THEN conjunct2, rule_format, OF made] out
  show ?thesis by simp
qed

text \<open>
  Claim C9 fails on the code. In folder \<^verbatim>\<open>A\<close> the entry \<^verbatim>\<open>a080.m4s\<close> is a dangling link:
  \<^verbatim>\<open>file.stat()\<close> in the log message of \<^verbatim>\<open>find_m4s_files\<close> raises, no \<^verbatim>\<open>try\<close> stands
  around it, and the exception leaves \<^verbatim>\<open>convert_single_folder\<close> and \<^verbatim>\<open>convert_all\<close>. The
  good folder \<^verbatim>\<open>B\<close> behind it is never processed.
\<close>

theorem batch_aborted_by_dangling_link:
  "fst (convert_single_folder ffmpeg_ok tool [''v'', ''A''] (fresh fs_link)) = Raised FileNotFoundError
   \<and> fst (convert_all ffmpeg_ok tool (fresh fs_link)) = Raised FileNotFoundError
   \<and> processed (snd (convert_all ffmpeg_ok tool (fresh fs_link))) = [''A'']
   \<and> fst (convert_single_folder ffmpeg_ok tool [''v'', ''B''] (fresh fs_link)) = Returned True"
  by code_simp

end
